theory Spec2Isabelle
  imports Complex_Main
begin

section \<open>Data model of a CTF scenario\<close>

text \<open>
  The shapes follow the TypeScript interfaces of \<^verbatim>\<open>ctf-scenario.schema.ts\<close> and the
  Mongoose sub-schemas of the model file. A \<^verbatim>\<open>Date\<close> is its number of milliseconds, a
  JavaScript string is the list of its code units, an optional field is an \<open>option\<close>.
  A \<^verbatim>\<open>Number\<close> that holds a count, a score or a version is an \<open>int\<close> (what JavaScript's
  addition does to a large version is written out in \<open>number_add_one\<close> below); the
  ratio settings of the LLM configuration are \<open>real\<close>. The one field left out is the
  environment's \<^verbatim>\<open>access_info\<close>, of the unconstrained type \<^verbatim>\<open>Mixed\<close>.
\<close>

type_synonym date = nat

datatype ScenarioStatus = Draft | Pending_review | Published | Archived

datatype ScenarioType = Ctf

datatype Difficulty = Beginner | Intermediate | Advanced | Expert

datatype FlagValidationType = Exact_match | Regex | Case_insensitive

datatype HintLevel = Minimal | Guided | Detailed

datatype SolutionDifficulty = Easy | Medium | Hard

datatype LLMPreset = Beginner_friendly | Balanced | Challenge | Custom

datatype NarrativeStyle = Realistic | Gamified | Academic

datatype CommunicationStyle = Professional | Friendly | Mentor | Peer

datatype CollaborationMode = Individual | Team

datatype EnvironmentType =
  Web_application | Pcap_file | Ssh_access | Virtual_network | Docker_container
  | Cloud_environment | Other

record CTFHint =
  hint_id :: int
  level :: HintLevel
  content :: string
  suggested_cost :: int
  unlock_condition :: "string option"

record CTFSolution =
  solution_method :: string
  difficulty :: SolutionDifficulty
  steps :: "string list"
  payload :: "string option"
  explanation :: string
  prerequisites :: "string list option"

record CTFFile =
  file_name :: string
  file_url :: string
  file_size :: "string option"
  file_description :: "string option"
  checksum :: "string option"

record Credentials =
  username :: string
  password :: string

record CTFEnvironment =
  env_type :: EnvironmentType
  env_description :: "string option"
  required_tools :: "string list option"
  env_url :: "string option"
  credentials :: "Credentials option"
  files :: "CTFFile list option"
  tech_stack :: "string list option"

record CTFFeedbackTemplates =
  fb_correct :: string
  fb_invalid_format :: string
  fb_close :: "string option"
  fb_wrong_approach :: "string option"
  fb_time_warning :: "string option"
  fb_custom :: "(string \<times> string) list"

record EducationalContent =
  what_is :: string
  how_it_works :: string
  real_world_examples :: "string list option"
  prevention :: string
  related_topics :: "string list option"
  references :: "string list option"

record CTFGameContent =
  description :: string
  background_story :: "string option"
  flag :: string
  flag_format :: string
  flag_validation :: FlagValidationType
  flag_regex :: "string option"
  max_score :: int
  environment :: "CTFEnvironment option"
  hints :: "CTFHint list"
  feedback_templates :: CTFFeedbackTemplates
  solutions :: "CTFSolution list"
  educational_content :: "EducationalContent option"

record BasicInfo =
  title :: string
  topic :: string
  subtopic :: "string option"
  info_difficulty :: Difficulty
  estimated_time :: int
  learning_objectives :: "string list"
  tags :: "string list option"

record LLMConfig =
  preset :: "LLMPreset option"
  creativity :: "real option"
  hint_detail_level :: "real option"
  feedback_detail_level :: "real option"
  explanation_depth :: "real option"
  hint_count :: "int option"
  narrative_style :: "NarrativeStyle option"
  communication_style :: "CommunicationStyle option"

record GamificationConfig =
  show_leaderboard :: bool
  allow_retries :: bool
  retry_penalty :: int
  time_bonus_enabled :: bool
  collaboration_mode :: CollaborationMode

record ScenarioMetadata =
  created_at :: date
  updated_at :: date
  created_by :: string
  version :: int
  status :: ScenarioStatus
  llm_generated :: bool

text \<open>The interface \<^verbatim>\<open>CTFScenario\<close>: every required field is there.\<close>

record CTFScenario =
  scenario_id :: string
  scenario_type :: ScenarioType
  basic_info :: BasicInfo
  game_content :: CTFGameContent
  llm_config :: "LLMConfig option"
  custom_instructions :: "string option"
  gamification_config :: "GamificationConfig option"
  metadata :: ScenarioMetadata

text \<open>\<^verbatim>\<open>Partial<CTFScenario>\<close>: the same fields, each one optional.\<close>

record PartialCTFScenario =
  p_scenario_id :: "string option"
  p_scenario_type :: "ScenarioType option"
  p_basic_info :: "BasicInfo option"
  p_game_content :: "CTFGameContent option"
  p_llm_config :: "LLMConfig option"
  p_custom_instructions :: "string option"
  p_gamification_config :: "GamificationConfig option"
  p_metadata :: "ScenarioMetadata option"

text \<open>
  A Mongoose document of the model, as Mongoose holds it in memory: the fields it was
  constructed with (after the setters of the schema), its metadata, and the flag
  \<^verbatim>\<open>isNew\<close> that Mongoose keeps true until the first successful save.
\<close>

record CTFScenarioDocument =
  doc_scenario_id :: string
  doc_scenario_type :: ScenarioType
  doc_basic_info :: "BasicInfo option"
  doc_game_content :: "CTFGameContent option"
  doc_llm_config :: "LLMConfig option"
  doc_custom_instructions :: "string option"
  doc_gamification_config :: "GamificationConfig option"
  doc_metadata :: ScenarioMetadata
  isNew :: bool

section \<open>JavaScript values\<close>

text \<open>
  \<^verbatim>\<open>version += 1\<close> on a \<^verbatim>\<open>Number\<close> that holds an integer \<open>n\<close>: the sum is exact while
  it stays within \<open>2 ^ 53\<close> in absolute value; from there on the doubles are 2 apart (4
  apart from \<open>2 ^ 54\<close> on) and the sum is rounded to the nearest of them, a tie going to
  the one with the even significand.
\<close>

definition number_add_one :: "int \<Rightarrow> int" where
  "number_add_one n =
     (if - (2 ^ 53) \<le> n \<and> n < 2 ^ 53 then n + 1
      else if \<bar>n\<bar> < 2 ^ 54 then (if even (n div 2) then n else n + 2)
      else n)"

text \<open>
  \<^verbatim>\<open>String.prototype.trim\<close>, the setter behind \<^verbatim>\<open>trim: true\<close>: white space and line
  terminators are removed at both ends (those among the code units below 256).
\<close>

definition is_white_space :: "char \<Rightarrow> bool" where
  "is_white_space c =
     (c \<in> {CHR 0x09, CHR 0x0A, CHR 0x0B, CHR 0x0C, CHR 0x0D, CHR 0x20, CHR 0xA0})"

definition js_trim :: "string \<Rightarrow> string" where
  "js_trim s = rev (dropWhile is_white_space (rev (dropWhile is_white_space s)))"

section \<open>The flag pattern\<close>

text \<open>
  The pattern \<^verbatim>\<open>/^CTF\{[^\}]+\}$/\<close> under \<^verbatim>\<open>test\<close>, read from left to right: the
  literal \<^verbatim>\<open>CTF{\<close> at the start of the input; one or more code units other than
  \<^verbatim>\<open>}\<close>, as many as there are (the next token is \<^verbatim>\<open>}\<close>, so no shorter run can
  match); the literal \<^verbatim>\<open>}\<close>; the end of the input (the pattern has no flag).
\<close>

definition strip_literal :: "string \<Rightarrow> string \<Rightarrow> string option" where
  "strip_literal lit s =
     (if take (length lit) s = lit then Some (drop (length lit) s) else None)"

definition flag_pattern_test :: "string \<Rightarrow> bool" where
  "flag_pattern_test s =
     (case strip_literal ''CTF{'' s of
        None \<Rightarrow> False
      | Some r \<Rightarrow>
          (let body = takeWhile (\<lambda>c. c \<noteq> CHR ''}'') r;
               rest = dropWhile (\<lambda>c. c \<noteq> CHR ''}'') r
           in body \<noteq> [] \<and> rest = ''}''))"

section \<open>The schema and its validation\<close>

text \<open>
  What Mongoose checks when a document is saved, read off the declarations of the
  sub-schemas: \<^verbatim>\<open>required\<close> (a required string must not be empty), \<^verbatim>\<open>minlength\<close> and
  \<^verbatim>\<open>maxlength\<close>, \<^verbatim>\<open>min\<close> and \<^verbatim>\<open>max\<close>, \<^verbatim>\<open>match\<close> and the two custom validators on the
  arrays. The \<^verbatim>\<open>enum\<close> declarations hold by the types.
\<close>

definition valid_hint :: "CTFHint \<Rightarrow> bool" where
  "valid_hint h = (content h \<noteq> [] \<and> 0 \<le> suggested_cost h)"

definition valid_solution :: "CTFSolution \<Rightarrow> bool" where
  "valid_solution s =
     (solution_method s \<noteq> [] \<and> list_all (\<lambda>st. st \<noteq> []) (steps s) \<and> explanation s \<noteq> [])"

definition valid_file :: "CTFFile \<Rightarrow> bool" where
  "valid_file f = (file_name f \<noteq> [] \<and> file_url f \<noteq> [])"

definition valid_environment :: "CTFEnvironment \<Rightarrow> bool" where
  "valid_environment e = (case files e of None \<Rightarrow> True | Some fs \<Rightarrow> list_all valid_file fs)"

definition valid_educational_content :: "EducationalContent \<Rightarrow> bool" where
  "valid_educational_content e =
     (what_is e \<noteq> [] \<and> how_it_works e \<noteq> [] \<and> prevention e \<noteq> [])"

definition valid_feedback_templates :: "CTFFeedbackTemplates \<Rightarrow> bool" where
  "valid_feedback_templates t = (fb_correct t \<noteq> [] \<and> fb_invalid_format t \<noteq> [])"

definition valid_game_content :: "CTFGameContent \<Rightarrow> bool" where
  "valid_game_content g =
     (description g \<noteq> [] \<and> 300 \<le> length (description g) \<and> length (description g) \<le> 600
      \<and> (case background_story g of None \<Rightarrow> True
          | Some b \<Rightarrow> 100 \<le> length b \<and> length b \<le> 300)
      \<and> flag g \<noteq> [] \<and> flag_pattern_test (flag g)
      \<and> 0 \<le> max_score g
      \<and> (case environment g of None \<Rightarrow> True | Some e \<Rightarrow> valid_environment e)
      \<and> list_all valid_hint (hints g)
      \<and> 3 \<le> length (hints g) \<and> length (hints g) \<le> 7
      \<and> valid_feedback_templates (feedback_templates g)
      \<and> list_all valid_solution (solutions g)
      \<and> 1 \<le> length (solutions g)
      \<and> (case educational_content g of None \<Rightarrow> True
          | Some e \<Rightarrow> valid_educational_content e))"

definition valid_basic_info :: "BasicInfo \<Rightarrow> bool" where
  "valid_basic_info b =
     (title b \<noteq> [] \<and> 1 \<le> length (title b) \<and> length (title b) \<le> 200
      \<and> topic b \<noteq> []
      \<and> 1 \<le> estimated_time b
      \<and> 1 \<le> length (learning_objectives b))"

definition in_unit_interval :: "real option \<Rightarrow> bool" where
  "in_unit_interval v = (case v of None \<Rightarrow> True | Some x \<Rightarrow> 0 \<le> x \<and> x \<le> 1)"

definition valid_llm_config :: "LLMConfig \<Rightarrow> bool" where
  "valid_llm_config c =
     (in_unit_interval (creativity c) \<and> in_unit_interval (hint_detail_level c)
      \<and> in_unit_interval (feedback_detail_level c) \<and> in_unit_interval (explanation_depth c)
      \<and> (case hint_count c of None \<Rightarrow> True | Some n \<Rightarrow> 3 \<le> n \<and> n \<le> 7))"

definition valid_gamification_config :: "GamificationConfig \<Rightarrow> bool" where
  "valid_gamification_config c = (0 \<le> retry_penalty c)"

definition valid_metadata :: "ScenarioMetadata \<Rightarrow> bool" where
  "valid_metadata m = (created_by m \<noteq> [] \<and> 1 \<le> version m)"

definition schema_valid :: "CTFScenarioDocument \<Rightarrow> bool" where
  "schema_valid d =
     (doc_scenario_id d \<noteq> []
      \<and> (case doc_basic_info d of None \<Rightarrow> False | Some b \<Rightarrow> valid_basic_info b)
      \<and> (case doc_game_content d of None \<Rightarrow> False | Some g \<Rightarrow> valid_game_content g)
      \<and> (case doc_llm_config d of None \<Rightarrow> True | Some c \<Rightarrow> valid_llm_config c)
      \<and> (case doc_custom_instructions d of None \<Rightarrow> True | Some c \<Rightarrow> length c \<le> 2000)
      \<and> (case doc_gamification_config d of None \<Rightarrow> True
          | Some c \<Rightarrow> valid_gamification_config c)
      \<and> valid_metadata (doc_metadata d))"

text \<open>
  The setters that \<^verbatim>\<open>new CTFScenarioModel(...)\<close> applies to the content it is given:
  every string declared with \<^verbatim>\<open>trim: true\<close> is trimmed.
\<close>

definition cast_hint :: "CTFHint \<Rightarrow> CTFHint" where
  "cast_hint h =
     h\<lparr>content := js_trim (content h),
       unlock_condition := map_option js_trim (unlock_condition h)\<rparr>"

definition cast_solution :: "CTFSolution \<Rightarrow> CTFSolution" where
  "cast_solution s =
     s\<lparr>solution_method := js_trim (solution_method s),
       payload := map_option js_trim (payload s),
       explanation := js_trim (explanation s)\<rparr>"

definition cast_environment :: "CTFEnvironment \<Rightarrow> CTFEnvironment" where
  "cast_environment e =
     e\<lparr>env_description := map_option js_trim (env_description e),
       env_url := map_option js_trim (env_url e)\<rparr>"

definition cast_feedback_templates :: "CTFFeedbackTemplates \<Rightarrow> CTFFeedbackTemplates" where
  "cast_feedback_templates t =
     t\<lparr>fb_correct := js_trim (fb_correct t),
       fb_invalid_format := js_trim (fb_invalid_format t),
       fb_close := map_option js_trim (fb_close t),
       fb_wrong_approach := map_option js_trim (fb_wrong_approach t),
       fb_time_warning := map_option js_trim (fb_time_warning t)\<rparr>"

definition cast_educational_content :: "EducationalContent \<Rightarrow> EducationalContent" where
  "cast_educational_content e =
     e\<lparr>what_is := js_trim (what_is e),
       how_it_works := js_trim (how_it_works e),
       prevention := js_trim (prevention e)\<rparr>"

definition cast_game_content :: "CTFGameContent \<Rightarrow> CTFGameContent" where
  "cast_game_content g =
     g\<lparr>description := js_trim (description g),
       background_story := map_option js_trim (background_story g),
       flag := js_trim (flag g),
       flag_format := js_trim (flag_format g),
       flag_regex := map_option js_trim (flag_regex g),
       environment := map_option cast_environment (environment g),
       hints := map cast_hint (hints g),
       feedback_templates := cast_feedback_templates (feedback_templates g),
       solutions := map cast_solution (solutions g),
       educational_content := map_option cast_educational_content (educational_content g)\<rparr>"

definition cast_basic_info :: "BasicInfo \<Rightarrow> BasicInfo" where
  "cast_basic_info b =
     b\<lparr>title := js_trim (title b),
       topic := js_trim (topic b),
       subtopic := map_option js_trim (subtopic b),
       tags := map_option (map js_trim) (tags b)\<rparr>"

section \<open>Saving and the lifecycle methods\<close>

text \<open>
  The pre-save middleware, with the reading of the clock (\<^verbatim>\<open>new Date()\<close>) as the
  argument \<open>now\<close>:
  \<^verbatim>\<open>
  this.metadata.updated_at = new Date();
  if (!this.isNew) { this.metadata.version += 1; }
  \<close>
\<close>

definition pre_save :: "date \<Rightarrow> CTFScenarioDocument \<Rightarrow> CTFScenarioDocument" where
  "pre_save now this =
     (let this1 = this\<lparr>doc_metadata := (doc_metadata this)\<lparr>updated_at := now\<rparr>\<rparr>
      in if \<not> isNew this1
         then this1\<lparr>doc_metadata :=
                (doc_metadata this1)\<lparr>version := number_add_one (version (doc_metadata this1))\<rparr>\<rparr>
         else this1)"

text \<open>
  The promise that \<^verbatim>\<open>save()\<close> returns either resolves with the document or rejects.
  Both outcomes carry the document as it is in memory after the call; a resolved one
  also carries the collection, which is represented by the values of \<^verbatim>\<open>scenario_id\<close> in
  its unique index.
\<close>

datatype SaveError = ValidationError | DuplicateKeyError

datatype SaveOutcome =
  Resolved CTFScenarioDocument "string list"
  | Rejected SaveError CTFScenarioDocument

fun resolved :: "SaveOutcome \<Rightarrow> bool" where
  "resolved (Resolved d ids) = True"
| "resolved (Rejected e d) = False"

fun document_after :: "SaveOutcome \<Rightarrow> CTFScenarioDocument" where
  "document_after (Resolved d ids) = d"
| "document_after (Rejected e d) = d"

text \<open>
  \<^verbatim>\<open>save()\<close>: Mongoose validates the document against the schema first and rejects
  without running the middleware when that fails. Then the middleware runs. A new
  document is inserted, which the unique index on \<^verbatim>\<open>scenario_id\<close> refuses when the value
  is in the collection already, and is not new afterwards. A document that was saved
  before is updated in place (the middleware and the lifecycle methods modify its
  metadata only, so the index is not concerned).
\<close>

definition save :: "string list \<Rightarrow> date \<Rightarrow> CTFScenarioDocument \<Rightarrow> SaveOutcome" where
  "save ids now this =
     (if \<not> schema_valid this then Rejected ValidationError this
      else
        (let this1 = pre_save now this
         in if isNew this1
            then (if doc_scenario_id this1 \<in> set ids
                  then Rejected DuplicateKeyError this1
                  else Resolved (this1\<lparr>isNew := False\<rparr>) (doc_scenario_id this1 # ids))
            else Resolved this1 ids))"

definition publish :: "string list \<Rightarrow> date \<Rightarrow> CTFScenarioDocument \<Rightarrow> SaveOutcome" where
  "publish ids now this =
     save ids now (this\<lparr>doc_metadata := (doc_metadata this)\<lparr>status := Published\<rparr>\<rparr>)"

definition archive :: "string list \<Rightarrow> date \<Rightarrow> CTFScenarioDocument \<Rightarrow> SaveOutcome" where
  "archive ids now this =
     save ids now (this\<lparr>doc_metadata := (doc_metadata this)\<lparr>status := Archived\<rparr>\<rparr>)"

definition saveDraft :: "string list \<Rightarrow> date \<Rightarrow> CTFScenarioDocument \<Rightarrow> SaveOutcome" where
  "saveDraft ids now this =
     save ids now (this\<lparr>doc_metadata := (doc_metadata this)\<lparr>status := Draft\<rparr>\<rparr>)"

section \<open>The record factory\<close>

text \<open>
  \<^verbatim>\<open>createCTFScenario\<close> builds the document from an object literal and saves it:
  \<^verbatim>\<open>
  const scenario = new CTFScenarioModel({
    scenario_id: new mongoose.Types.ObjectId().toString(),
    scenario_type: 'ctf',
    ...scenarioData,
    metadata: { created_by: instructorId, created_at: new Date(), updated_at: new Date(),
                version: 1, status: 'draft',
                llm_generated: scenarioData.llm_config ? true : false } });
  return await scenario.save();
  \<close>
  In an object literal a later key replaces an earlier one, so the keys of
  \<open>scenarioData\<close> that are present replace \<^verbatim>\<open>scenario_id\<close> and \<^verbatim>\<open>scenario_type\<close>, and
  the literal's \<^verbatim>\<open>metadata\<close> replaces the one of \<open>scenarioData\<close>.

  The ObjectId generator belongs to Mongoose: \<open>objectId k\<close> is the text of the
  \<open>k\<close>-th identifier it makes and the counter \<open>k\<close> is threaded through the call. The
  clock is read three times: \<open>t_created\<close> and \<open>t_updated\<close> in the literal, \<open>t_saved\<close> in
  the pre-save middleware.
\<close>

definition new_scenario ::
  "(nat \<Rightarrow> string) \<Rightarrow> nat \<Rightarrow> date \<Rightarrow> date \<Rightarrow> PartialCTFScenario \<Rightarrow> string
     \<Rightarrow> CTFScenarioDocument" where
  "new_scenario objectId k t_created t_updated scenarioData instructorId =
     \<lparr> doc_scenario_id =
         (case p_scenario_id scenarioData of Some i \<Rightarrow> i | None \<Rightarrow> objectId k),
       doc_scenario_type =
         (case p_scenario_type scenarioData of Some t \<Rightarrow> t | None \<Rightarrow> Ctf),
       doc_basic_info = map_option cast_basic_info (p_basic_info scenarioData),
       doc_game_content = map_option cast_game_content (p_game_content scenarioData),
       doc_llm_config = p_llm_config scenarioData,
       doc_custom_instructions = map_option js_trim (p_custom_instructions scenarioData),
       doc_gamification_config = p_gamification_config scenarioData,
       doc_metadata =
         \<lparr> created_at = t_created,
           updated_at = t_updated,
           created_by = instructorId,
           version = 1,
           status = Draft,
           llm_generated =
             (case p_llm_config scenarioData of Some c \<Rightarrow> True | None \<Rightarrow> False) \<rparr>,
       isNew = True \<rparr>"

definition createCTFScenario ::
  "(nat \<Rightarrow> string) \<Rightarrow> nat \<Rightarrow> string list \<Rightarrow> date \<Rightarrow> date \<Rightarrow> date \<Rightarrow>
     PartialCTFScenario \<Rightarrow> string \<Rightarrow> SaveOutcome \<times> nat" where
  "createCTFScenario objectId k ids t_created t_updated t_saved scenarioData instructorId =
     (save ids t_saved
        (new_scenario objectId k t_created t_updated scenarioData instructorId),
      Suc k)"

section \<open>Validation\<close>

text \<open>The constants \<^verbatim>\<open>CTF_CONSTRAINTS\<close>.\<close>

definition description_min_length :: nat where "description_min_length = 300"
definition description_max_length :: nat where "description_max_length = 600"
definition background_story_min_length :: nat where "background_story_min_length = 100"
definition background_story_max_length :: nat where "background_story_max_length = 300"
definition hints_min_count :: nat where "hints_min_count = 3"
definition hints_max_count :: nat where "hints_max_count = 7"
definition solutions_min_count :: nat where "solutions_min_count = 1"
definition flag_min_length :: nat where "flag_min_length = 10"
definition flag_max_length :: nat where "flag_max_length = 100"

text \<open>A natural number in a template literal: its decimal digits.\<close>

fun number_toString :: "nat \<Rightarrow> string" where
  "number_toString n =
     (if n < 10 then [''0123456789'' ! n]
      else number_toString (n div 10) @ [''0123456789'' ! (n mod 10)])"

declare number_toString.simps [simp del]

record ValidationResult =
  valid :: bool
  errors :: "string list"

text \<open>\<^verbatim>\<open>validateCTFScenario\<close> of the schema file, on a complete \<^verbatim>\<open>CTFScenario\<close>.\<close>

definition validateCTFScenario :: "CTFScenario \<Rightarrow> ValidationResult" where
  "validateCTFScenario scenario =
     (let errors0 = [];
          descLen = length (description (game_content scenario));
          errors1 =
            (if descLen < description_min_length \<or> descLen > description_max_length
             then errors0 @ [''Description must be '' @ number_toString description_min_length
                    @ ''-'' @ number_toString description_max_length @ '' characters'']
             else errors0);
          errors2 =
            (if \<not> flag_pattern_test (flag (game_content scenario))
             then errors1 @ [''Flag must match format CTF{...}'']
             else errors1);
          hintCount = length (hints (game_content scenario));
          errors3 =
            (if hintCount < hints_min_count \<or> hintCount > hints_max_count
             then errors2 @ [''Must have '' @ number_toString hints_min_count
                    @ ''-'' @ number_toString hints_max_count @ '' hints'']
             else errors2);
          errors4 =
            (if length (solutions (game_content scenario)) < solutions_min_count
             then errors3 @ [''Must have at least '' @ number_toString solutions_min_count
                    @ '' solution'']
             else errors3)
      in \<lparr> valid = (length errors4 = 0), errors = errors4 \<rparr>)"

text \<open>
  The argument of \<^verbatim>\<open>validateCTFScenarioData\<close> has type \<^verbatim>\<open>any\<close>; it is taken to be an
  object, of which the function reads five paths through optional chaining, each of
  which may be missing.
\<close>

record GameContentData =
  data_description :: "string option"
  data_flag :: "string option"
  data_hints :: "CTFHint list option"
  data_solutions :: "CTFSolution list option"

record BasicInfoData =
  data_learning_objectives :: "string list option"

record ScenarioData =
  data_game_content :: "GameContentData option"
  data_basic_info :: "BasicInfoData option"

text \<open>
  The guard \<^verbatim>\<open>if (data.game_content?.description)\<close> tests truthiness: a missing path
  and the empty string are both falsy; every array, also the empty one, is truthy.
\<close>

definition truthy_string :: "string option \<Rightarrow> bool" where
  "truthy_string v = (case v of None \<Rightarrow> False | Some s \<Rightarrow> s \<noteq> [])"

definition truthy_array :: "'a list option \<Rightarrow> bool" where
  "truthy_array v = (case v of None \<Rightarrow> False | Some xs \<Rightarrow> True)"

definition validateCTFScenarioData :: "ScenarioData \<Rightarrow> ValidationResult" where
  "validateCTFScenarioData data =
     (let errors0 = [];
          errors1 =
            (if truthy_string (Option.bind (data_game_content data) data_description)
             then (let descLen =
                         length (the (Option.bind (data_game_content data) data_description))
                   in if descLen < 300 \<or> descLen > 600
                      then errors0 @ [''Description must be 300-600 characters (current: ''
                             @ number_toString descLen @ '')'']
                      else errors0)
             else errors0);
          errors2 =
            (if truthy_string (Option.bind (data_game_content data) data_flag)
             then (if \<not> flag_pattern_test (the (Option.bind (data_game_content data) data_flag))
                   then errors1 @ [''Flag must match format CTF{...}'']
                   else errors1)
             else errors1);
          errors3 =
            (if truthy_array (Option.bind (data_game_content data) data_hints)
             then (let hintCount =
                         length (the (Option.bind (data_game_content data) data_hints))
                   in if hintCount < 3 \<or> hintCount > 7
                      then errors2 @ [''Must have 3-7 hints (current: ''
                             @ number_toString hintCount @ '')'']
                      else errors2)
             else errors2);
          errors4 =
            (if truthy_array (Option.bind (data_game_content data) data_solutions)
             then (if length (the (Option.bind (data_game_content data) data_solutions)) < 1
                   then errors3 @ [''Must have at least 1 solution'']
                   else errors3)
             else errors3);
          errors5 =
            (if truthy_array (Option.bind (data_basic_info data) data_learning_objectives)
             then (if length (the (Option.bind (data_basic_info data) data_learning_objectives)) < 1
                   then errors4 @ [''Must have at least 1 learning objective'']
                   else errors4)
             else errors4)
      in \<lparr> valid = (length errors5 = 0), errors = errors5 \<rparr>)"

section \<open>Vocabulary for the properties\<close>

text \<open>
  The five checks that the validators have between them, and the test that tells from
  the text of a message which check produced it.
\<close>

datatype Check =
  DescriptionLength | FlagPattern | HintsCardinality | SolutionsCardinality
  | ObjectivesCardinality

definition starts_with :: "string \<Rightarrow> string \<Rightarrow> bool" where
  "starts_with p s = (take (length p) s = p)"

fun is_error_of :: "Check \<Rightarrow> string \<Rightarrow> bool" where
  "is_error_of DescriptionLength m = starts_with ''Description must be '' m"
| "is_error_of FlagPattern m = starts_with ''Flag must match format '' m"
| "is_error_of HintsCardinality m = starts_with ''Must have 3-7 hints'' m"
| "is_error_of SolutionsCardinality m = starts_with ''Must have at least 1 solution'' m"
| "is_error_of ObjectivesCardinality m =
     starts_with ''Must have at least 1 learning objective'' m"

text \<open>The five paths that \<^verbatim>\<open>validateCTFScenarioData\<close> reads.\<close>

definition the_description :: "ScenarioData \<Rightarrow> string option" where
  "the_description d = Option.bind (data_game_content d) data_description"

definition the_flag :: "ScenarioData \<Rightarrow> string option" where
  "the_flag d = Option.bind (data_game_content d) data_flag"

definition the_hints :: "ScenarioData \<Rightarrow> CTFHint list option" where
  "the_hints d = Option.bind (data_game_content d) data_hints"

definition the_solutions :: "ScenarioData \<Rightarrow> CTFSolution list option" where
  "the_solutions d = Option.bind (data_game_content d) data_solutions"

definition the_objectives :: "ScenarioData \<Rightarrow> string list option" where
  "the_objectives d = Option.bind (data_basic_info d) data_learning_objectives"

text \<open>
  The flag check as the specification words it: the string starts with \<^verbatim>\<open>CTF{\<close>, ends
  with \<^verbatim>\<open>}\<close>, and some character between the two is not \<^verbatim>\<open>}\<close>. It is compared with
  \<open>flag_pattern_test\<close> below.
\<close>

definition flag_check_as_worded :: "string \<Rightarrow> bool" where
  "flag_check_as_worded s =
     (starts_with ''CTF{'' s \<and> s \<noteq> [] \<and> last s = CHR ''}''
      \<and> (\<exists>c \<in> set (butlast (drop 4 s)). c \<noteq> CHR ''}''))"

section \<open>Sample values\<close>

definition sample_hint :: CTFHint where
  "sample_hint =
     \<lparr> hint_id = 1, level = Minimal, content = ''Look at the packets'', suggested_cost = 5,
       unlock_condition = None \<rparr>"

definition sample_solution :: CTFSolution where
  "sample_solution =
     \<lparr> solution_method = ''Filter the capture'', difficulty = Easy, steps = [''Open the file''],
       payload = None, explanation = ''The flag is sent in clear text'',
       prerequisites = None \<rparr>"

definition sample_feedback_templates :: CTFFeedbackTemplates where
  "sample_feedback_templates =
     \<lparr> fb_correct = ''Well done'', fb_invalid_format = ''A flag looks like CTF{...}'',
       fb_close = None, fb_wrong_approach = None, fb_time_warning = None, fb_custom = [] \<rparr>"

definition sample_basic_info :: BasicInfo where
  "sample_basic_info =
     \<lparr> title = ''My CTF Challenge'', topic = ''Packet Sniffing'', subtopic = None,
       info_difficulty = Intermediate, estimated_time = 20,
       learning_objectives = [''Analyze packets''], tags = None \<rparr>"

definition sample_metadata :: ScenarioMetadata where
  "sample_metadata =
     \<lparr> created_at = 1000, updated_at = 1000, created_by = ''instructor@example.com'',
       version = 1, status = Draft, llm_generated = False \<rparr>"

definition sample_scenario :: "string \<Rightarrow> string \<Rightarrow> nat \<Rightarrow> nat \<Rightarrow> CTFScenario" where
  "sample_scenario desc flg n_hints n_solutions =
     \<lparr> scenario_id = ''uuid-123'', scenario_type = Ctf, basic_info = sample_basic_info,
       game_content =
         \<lparr> description = desc, background_story = None, flag = flg,
           flag_format = ''CTF{...}'', flag_validation = Exact_match, flag_regex = None,
           max_score = 100, environment = None, hints = replicate n_hints sample_hint,
           feedback_templates = sample_feedback_templates,
           solutions = replicate n_solutions sample_solution,
           educational_content = None \<rparr>,
       llm_config = None, custom_instructions = None, gamification_config = None,
       metadata = sample_metadata \<rparr>"

definition regex_mode_scenario :: CTFScenario where
  "regex_mode_scenario =
     (sample_scenario (replicate 300 (CHR ''a'')) ''CTF{flag_here}'' 3 1)
       \<lparr> game_content :=
           (game_content (sample_scenario (replicate 300 (CHR ''a'')) ''CTF{flag_here}'' 3 1))
             \<lparr> flag_validation := Regex, flag_regex := None \<rparr> \<rparr>"

definition scenario_without_objectives :: CTFScenario where
  "scenario_without_objectives =
     (sample_scenario (replicate 300 (CHR ''a'')) ''CTF{flag_here}'' 3 1)
       \<lparr> basic_info := sample_basic_info\<lparr> learning_objectives := [] \<rparr> \<rparr>"

definition sample_data :: "string \<Rightarrow> string \<Rightarrow> nat \<Rightarrow> nat \<Rightarrow> nat \<Rightarrow> ScenarioData" where
  "sample_data desc flg n_hints n_solutions n_objectives =
     \<lparr> data_game_content =
         Some \<lparr> data_description = Some desc, data_flag = Some flg,
                data_hints = Some (replicate n_hints sample_hint),
                data_solutions = Some (replicate n_solutions sample_solution) \<rparr>,
       data_basic_info =
         Some \<lparr> data_learning_objectives = Some (replicate n_objectives ''Analyze packets'') \<rparr> \<rparr>"

definition empty_data :: ScenarioData where
  "empty_data = \<lparr> data_game_content = None, data_basic_info = None \<rparr>"

text \<open>Content that meets the schema, and documents and inputs that carry it.\<close>

definition sample_game_content :: CTFGameContent where
  "sample_game_content =
     game_content (sample_scenario (replicate 300 (CHR ''a'')) ''CTF{flag_here}'' 3 1)"

definition sample_document :: "string \<Rightarrow> int \<Rightarrow> ScenarioStatus \<Rightarrow> bool \<Rightarrow> CTFScenarioDocument" where
  "sample_document i v s new =
     \<lparr> doc_scenario_id = i, doc_scenario_type = Ctf,
       doc_basic_info = Some sample_basic_info,
       doc_game_content = Some sample_game_content,
       doc_llm_config = None, doc_custom_instructions = None,
       doc_gamification_config = None,
       doc_metadata =
         \<lparr> created_at = 1000, updated_at = 2000, created_by = ''instructor@example.com'',
           version = v, status = s, llm_generated = False \<rparr>,
       isNew = new \<rparr>"

definition archived_document :: CTFScenarioDocument where
  "archived_document = sample_document ''uuid-123'' 3 Archived False"

definition unsaved_document :: CTFScenarioDocument where
  "unsaved_document = sample_document ''uuid-456'' 1 Draft True"

definition worn_document :: CTFScenarioDocument where
  "worn_document = sample_document ''uuid-123'' (2 ^ 53) Published False"





section \<open>Saving and the lifecycle: properties\<close>

lemma number_add_one_exact: "- (2 ^ 53) \<le> n \<Longrightarrow> n < 2 ^ 53 \<Longrightarrow> number_add_one n = n + 1"
  by (simp add: number_add_one_def)

lemma number_add_one_mono: "n \<le> number_add_one n"
  by (simp add: number_add_one_def)

lemma schema_valid_status:
  "schema_valid (d\<lparr>doc_metadata := (doc_metadata d)\<lparr>status := s\<rparr>\<rparr>) = schema_valid d"
  by (simp add: schema_valid_def valid_metadata_def)

lemma save_invalid: "\<not> schema_valid d \<Longrightarrow> save ids now d = Rejected ValidationError d"
  by (simp add: save_def)

lemma save_update:
  "schema_valid d \<Longrightarrow> \<not> isNew d \<Longrightarrow>
   save ids now d =
     Resolved (d\<lparr>doc_metadata := (doc_metadata d)\<lparr>updated_at := now,
        version := number_add_one (version (doc_metadata d))\<rparr>\<rparr>) ids"
  by (simp add: save_def pre_save_def Let_def)

lemma save_insert:
  "schema_valid d \<Longrightarrow> isNew d \<Longrightarrow>
   save ids now d =
     (if doc_scenario_id d \<in> set ids
      then Rejected DuplicateKeyError (d\<lparr>doc_metadata := (doc_metadata d)\<lparr>updated_at := now\<rparr>\<rparr>)
      else Resolved (d\<lparr>doc_metadata := (doc_metadata d)\<lparr>updated_at := now\<rparr>, isNew := False\<rparr>)
             (doc_scenario_id d # ids))"
  by (simp add: save_def pre_save_def Let_def)

lemma resolved_save:
  "resolved (save ids now d) = (schema_valid d \<and> (isNew d \<longrightarrow> doc_scenario_id d \<notin> set ids))"
  by (cases "schema_valid d"; cases "isNew d") (simp_all add: save_invalid save_update save_insert)

lemma frame_save:
  "doc_scenario_id (document_after (save ids now d)) = doc_scenario_id d"
  "doc_scenario_type (document_after (save ids now d)) = doc_scenario_type d"
  "created_at (doc_metadata (document_after (save ids now d))) = created_at (doc_metadata d)"
  "status (doc_metadata (document_after (save ids now d))) = status (doc_metadata d)"
  "created_by (doc_metadata (document_after (save ids now d))) = created_by (doc_metadata d)"
  "llm_generated (doc_metadata (document_after (save ids now d))) = llm_generated (doc_metadata d)"
  by (cases "schema_valid d"; cases "isNew d";
      simp add: save_invalid save_update save_insert)+

lemma version_save:
  "version (doc_metadata (document_after (save ids now d))) =
     (if schema_valid d \<and> \<not> isNew d then number_add_one (version (doc_metadata d))
      else version (doc_metadata d))"
  by (cases "schema_valid d"; cases "isNew d") (simp_all add: save_invalid save_update save_insert)

lemma updated_at_save:
  "updated_at (doc_metadata (document_after (save ids now d))) =
     (if schema_valid d then now else updated_at (doc_metadata d))"
  by (cases "schema_valid d"; cases "isNew d") (simp_all add: save_invalid save_update save_insert)

lemma isNew_save:
  "isNew (document_after (save ids now d)) = (isNew d \<and> \<not> resolved (save ids now d))"
  by (cases "schema_valid d"; cases "isNew d") (simp_all add: save_invalid save_update save_insert)

lemma schema_valid_samples:
  "schema_valid (sample_document i v s new) = (i \<noteq> [] \<and> 1 \<le> v)"
  by (simp add: schema_valid_def sample_document_def sample_basic_info_def
      sample_game_content_def sample_scenario_def valid_basic_info_def valid_game_content_def
      valid_metadata_def valid_hint_def valid_solution_def valid_feedback_templates_def
      sample_hint_def sample_solution_def sample_feedback_templates_def
      flag_pattern_test_def strip_literal_def list_all_length)




lemma resolved_methods:
  "resolved (publish ids now d) = (schema_valid d \<and> (isNew d \<longrightarrow> doc_scenario_id d \<notin> set ids))"
  "resolved (archive ids now d) = (schema_valid d \<and> (isNew d \<longrightarrow> doc_scenario_id d \<notin> set ids))"
  "resolved (saveDraft ids now d) = (schema_valid d \<and> (isNew d \<longrightarrow> doc_scenario_id d \<notin> set ids))"
  by (simp_all add: publish_def archive_def saveDraft_def resolved_save schema_valid_status)



lemma sample_facts:
  "schema_valid archived_document" "\<not> isNew archived_document"
  "status (doc_metadata archived_document) = Archived"
  "version (doc_metadata archived_document) = 3"
  "updated_at (doc_metadata archived_document) = 2000"
  "created_at (doc_metadata archived_document) = 1000"
  "doc_scenario_id archived_document = ''uuid-123''"
  "doc_scenario_type archived_document = Ctf"
  "schema_valid unsaved_document" "isNew unsaved_document"
  "version (doc_metadata unsaved_document) = 1"
  "doc_scenario_id unsaved_document = ''uuid-456''"
  "schema_valid worn_document" "\<not> isNew worn_document"
  "version (doc_metadata worn_document) = 2 ^ 53"
  by (simp_all add: archived_document_def unsaved_document_def worn_document_def
      schema_valid_samples) (simp_all add: sample_document_def)




text \<open>
  Two documents that meet the schema and whose version \<^verbatim>\<open>publish\<close> does not increment,
  although it resolves: one that was never saved (the middleware increments only
  when \<^verbatim>\<open>isNew\<close> is false) and one whose version is \<open>2 ^ 53\<close> (where adding 1 to a
  \<^verbatim>\<open>Number\<close> gives the same \<^verbatim>\<open>Number\<close>).
\<close>

theorem version_not_incremented:
  "schema_valid unsaved_document \<and> isNew unsaved_document
   \<and> version (doc_metadata unsaved_document) = 1
   \<and> resolved (publish [] 5000 unsaved_document)
   \<and> version (doc_metadata (document_after (publish [] 5000 unsaved_document))) = 1
   \<and> schema_valid worn_document \<and> \<not> isNew worn_document
   \<and> version (doc_metadata worn_document) = 2 ^ 53
   \<and> resolved (publish [''uuid-123''] 5000 worn_document)
   \<and> version (doc_metadata (document_after (publish [''uuid-123''] 5000 worn_document))) = 2 ^ 53"
  by (simp add: sample_facts resolved_methods)
     (simp add: publish_def version_save schema_valid_status sample_facts number_add_one_def)

text \<open>
  C2, as the code has it. Let \<open>op\<close> be one of \<^verbatim>\<open>publish\<close>, \<^verbatim>\<open>archive\<close>, \<^verbatim>\<open>saveDraft\<close> and a
  plain \<^verbatim>\<open>save\<close>. On a record that meets the schema, was saved before and has a version
  below \<open>2 ^ 53\<close>, \<open>op\<close> resolves and increments the version by exactly 1. Whenever \<open>op\<close>
  resolves, \<open>updated_at\<close> is the current time. On a record that is still new the version
  is left as it is. In every case \<open>created_at\<close>, the scenario id and the scenario type
  are unchanged and the version does not decrease; it is 1 on a record that
  \<^verbatim>\<open>createCTFScenario\<close> returns.
\<close>

theorem saved_record_transition_effects:
  assumes "op \<in> {publish, archive, saveDraft, save}"
  shows "(schema_valid d \<and> \<not> isNew d \<and> version (doc_metadata d) < 2 ^ 53 \<longrightarrow>
          resolved (op ids now d)
          \<and> version (doc_metadata (document_after (op ids now d))) = version (doc_metadata d) + 1)
     \<and> (resolved (op ids now d) \<longrightarrow>
          updated_at (doc_metadata (document_after (op ids now d))) = now)
     \<and> (isNew d \<longrightarrow>
          version (doc_metadata (document_after (op ids now d))) = version (doc_metadata d))
     \<and> created_at (doc_metadata (document_after (op ids now d))) = created_at (doc_metadata d)
     \<and> doc_scenario_id (document_after (op ids now d)) = doc_scenario_id d
     \<and> doc_scenario_type (document_after (op ids now d)) = doc_scenario_type d
     \<and> version (doc_metadata d) \<le> version (doc_metadata (document_after (op ids now d)))
     \<and> (resolved (fst (createCTFScenario objectId k ids t1 t2 t3 scenarioData instructorId)) \<longrightarrow>
          version (doc_metadata (document_after
            (fst (createCTFScenario objectId k ids t1 t2 t3 scenarioData instructorId)))) = 1)"
proof -
  have c: "version (doc_metadata (document_after
            (fst (createCTFScenario objectId k ids t1 t2 t3 scenarioData instructorId)))) = 1"
    by (simp add: createCTFScenario_def version_save new_scenario_def)
  have b: "schema_valid d \<Longrightarrow> 1 \<le> version (doc_metadata d)"
    by (simp add: schema_valid_def valid_metadata_def)
  have s: ?thesis if "op = (\<lambda>ids now d. save ids now (d\<lparr>doc_metadata := (doc_metadata d)\<lparr>status := st\<rparr>\<rparr>))" for st
    using c b number_add_one_mono [of "version (doc_metadata d)"]
    by (auto simp: that resolved_save schema_valid_status version_save updated_at_save frame_save
        number_add_one_exact)
  have p: ?thesis if "op = save"
    using c b number_add_one_mono [of "version (doc_metadata d)"]
    by (auto simp: that resolved_save version_save updated_at_save frame_save number_add_one_exact)
  have "publish = (\<lambda>ids now d. save ids now (d\<lparr>doc_metadata := (doc_metadata d)\<lparr>status := Published\<rparr>\<rparr>))"
    "archive = (\<lambda>ids now d. save ids now (d\<lparr>doc_metadata := (doc_metadata d)\<lparr>status := Archived\<rparr>\<rparr>))"
    "saveDraft = (\<lambda>ids now d. save ids now (d\<lparr>doc_metadata := (doc_metadata d)\<lparr>status := Draft\<rparr>\<rparr>))"
    by (auto simp: fun_eq_iff publish_def archive_def saveDraft_def)
  with assms s p show ?thesis by blast
qed

theorem saved_record_transition_effects_witness:
  "archive \<in> {publish, archive, saveDraft, save}
   \<and> schema_valid archived_document \<and> \<not> isNew archived_document
   \<and> version (doc_metadata archived_document) = 3
   \<and> resolved (archive [''uuid-123''] 5000 archived_document)
   \<and> version (doc_metadata (document_after (archive [''uuid-123''] 5000 archived_document))) = 4
   \<and> updated_at (doc_metadata (document_after (archive [''uuid-123''] 5000 archived_document))) = 5000
   \<and> created_at (doc_metadata (document_after (archive [''uuid-123''] 5000 archived_document))) = 1000
   \<and> doc_scenario_id (document_after (archive [''uuid-123''] 5000 archived_document)) = ''uuid-123''
   \<and> doc_scenario_type (document_after (archive [''uuid-123''] 5000 archived_document)) = Ctf"
proof -
  have h: "archive \<in> {publish, archive, saveDraft, save}" by simp
  have v: "version (doc_metadata archived_document) < 2 ^ 53" by (simp add: sample_facts)
  show ?thesis
    using h v sample_facts(1,2)
      saved_record_transition_effects [OF h, of archived_document "[''uuid-123'']" 5000]
    by (simp add: sample_facts)
qed



section \<open>The record factory: properties\<close>











section \<open>The flag pattern: properties\<close>

lemma strip_literal_Some: "strip_literal lit s = Some r \<longleftrightarrow> s = lit @ r"
  unfolding strip_literal_def
  by (metis append_eq_conv_conj append_take_drop_id option.distinct(1) option.inject)

lemma flag_pattern_test_append:
  "flag_pattern_test (''CTF{'' @ r) =
     (takeWhile (\<lambda>c. c \<noteq> CHR ''}'') r \<noteq> [] \<and> dropWhile (\<lambda>c. c \<noteq> CHR ''}'') r = ''}'')"
  by (simp add: flag_pattern_test_def strip_literal_def)

lemma flag_pattern_test_prefix: "flag_pattern_test s \<Longrightarrow> \<exists>r. s = ''CTF{'' @ r"
  unfolding flag_pattern_test_def
  by (cases "strip_literal ''CTF{'' s") (auto simp: strip_literal_Some)

lemma flag_pattern_test_body:
  "flag_pattern_test s \<longleftrightarrow>
     (\<exists>body. s = ''CTF{'' @ body @ ''}'' \<and> body \<noteq> [] \<and> CHR ''}'' \<notin> set body)"
proof
  assume a: "flag_pattern_test s"
  then obtain r where r: "s = ''CTF{'' @ r" using flag_pattern_test_prefix by blast
  let ?body = "takeWhile (\<lambda>c. c \<noteq> CHR ''}'') r"
  from a r have b: "?body \<noteq> []" "dropWhile (\<lambda>c. c \<noteq> CHR ''}'') r = ''}''"
    using flag_pattern_test_append by blast+
  have "r = ?body @ dropWhile (\<lambda>c. c \<noteq> CHR ''}'') r" by simp
  then have "r = ?body @ ''}''" using b by simp
  then have "s = ''CTF{'' @ ?body @ ''}''" using r by simp
  moreover have "CHR ''}'' \<notin> set ?body" by (auto dest: set_takeWhileD)
  ultimately show "\<exists>body. s = ''CTF{'' @ body @ ''}'' \<and> body \<noteq> [] \<and> CHR ''}'' \<notin> set body"
    using b by blast
next
  assume "\<exists>body. s = ''CTF{'' @ body @ ''}'' \<and> body \<noteq> [] \<and> CHR ''}'' \<notin> set body"
  then obtain body where s: "s = ''CTF{'' @ body @ ''}''" and ne: "body \<noteq> []"
    and nb: "CHR ''}'' \<notin> set body" by blast
  have tw: "takeWhile (\<lambda>c. c \<noteq> CHR ''}'') (body @ ''}'') = body"
    using nb by (induction body) auto
  have dw: "dropWhile (\<lambda>c. c \<noteq> CHR ''}'') (body @ ''}'') = ''}''"
    using nb by (induction body) auto
  show "flag_pattern_test s"
    unfolding s flag_pattern_test_append using ne tw dw by simp
qed

text \<open>
  A flag with a closing brace inside: it starts with \<^verbatim>\<open>CTF{\<close>, ends with \<^verbatim>\<open>}\<close> and has
  characters other than \<^verbatim>\<open>}\<close> in between, yet the pattern does not match it.
\<close>

theorem inner_brace_counterexample:
  "flag_check_as_worded ''CTF{a}b}'' \<and> \<not> flag_pattern_test ''CTF{a}b}''"
  by (simp add: flag_check_as_worded_def starts_with_def flag_pattern_test_def
      strip_literal_def)

text \<open>
  C5, as the code has it. The flag-pattern check passes a string exactly when it is
  \<^verbatim>\<open>CTF{\<close>, then one or more characters none of which is \<^verbatim>\<open>}\<close>, then \<^verbatim>\<open>}\<close> and nothing
  after it. In particular \<^verbatim>\<open>CTF{}\<close> and \<^verbatim>\<open>CTF[x]\<close> fail, and so does every string that
  does not start with \<^verbatim>\<open>CTF{\<close> or does not end with \<^verbatim>\<open>}\<close>.
\<close>

theorem flag_pattern_characterised:
  "(flag_pattern_test s \<longleftrightarrow>
      (\<exists>body. s = ''CTF{'' @ body @ ''}'' \<and> body \<noteq> [] \<and> CHR ''}'' \<notin> set body))
   \<and> \<not> flag_pattern_test ''CTF{}''
   \<and> \<not> flag_pattern_test ''CTF[x]''
   \<and> (\<not> starts_with ''CTF{'' s \<longrightarrow> \<not> flag_pattern_test s)
   \<and> (s = [] \<or> last s \<noteq> CHR ''}'' \<longrightarrow> \<not> flag_pattern_test s)"
proof -
  have 1: "\<not> flag_pattern_test ''CTF{}''" "\<not> flag_pattern_test ''CTF[x]''"
    by (simp_all add: flag_pattern_test_def strip_literal_def)
  have 2: "starts_with ''CTF{'' s" if "flag_pattern_test s"
    using flag_pattern_test_prefix [OF that] by (auto simp: starts_with_def)
  have 3: "s \<noteq> [] \<and> last s = CHR ''}''" if "flag_pattern_test s"
    using that unfolding flag_pattern_test_body by auto
  show ?thesis using 1 2 3 flag_pattern_test_body [of s] by blast
qed

theorem flag_pattern_characterised_witness:
  "flag_pattern_test ''CTF{flag_here}'' \<and> starts_with ''CTF{'' ''CTF{flag_here}''
   \<and> last ''CTF{flag_here}'' = CHR ''}''
   \<and> \<not> flag_pattern_test ''CTF{flag_here'' \<and> \<not> flag_pattern_test ''flag_here}''"
proof -
  have a: "\<exists>body. ''CTF{flag_here}'' = ''CTF{'' @ body @ ''}'' \<and> body \<noteq> []
      \<and> CHR ''}'' \<notin> set body"
    by (rule exI [of _ "''flag_here''"]) simp
  have b: "''CTF{flag_here'' = [] \<or> last ''CTF{flag_here'' \<noteq> CHR ''}''" by simp
  have c: "\<not> starts_with ''CTF{'' ''flag_here}''" by (simp add: starts_with_def)
  show ?thesis
    using a b c flag_pattern_characterised [of "''CTF{flag_here}''"]
      flag_pattern_characterised [of "''CTF{flag_here''"]
      flag_pattern_characterised [of "''flag_here}''"]
    by (simp add: starts_with_def)
qed

section \<open>Validation: properties\<close>

lemma number_toString_consts:
  "number_toString 300 = ''300''" "number_toString 600 = ''600''"
  "number_toString 3 = ''3''" "number_toString 7 = ''7''" "number_toString (Suc 0) = ''1''"
  by (simp_all add: number_toString.simps)

lemma errors_validateCTFScenario:
  "errors (validateCTFScenario s) =
     (if length (description (game_content s)) < 300
         \<or> 600 < length (description (game_content s))
      then [''Description must be 300-600 characters''] else [])
   @ (if \<not> flag_pattern_test (flag (game_content s))
      then [''Flag must match format CTF{...}''] else [])
   @ (if length (hints (game_content s)) < 3 \<or> 7 < length (hints (game_content s))
      then [''Must have 3-7 hints''] else [])
   @ (if length (solutions (game_content s)) < 1
      then [''Must have at least 1 solution''] else [])"
  by (simp add: validateCTFScenario_def Let_def number_toString_consts
      description_min_length_def description_max_length_def hints_min_count_def
      hints_max_count_def solutions_min_count_def)

lemma errors_validateCTFScenarioData:
  "errors (validateCTFScenarioData d) =
     (if truthy_string (the_description d)
         \<and> (length (the (the_description d)) < 300 \<or> 600 < length (the (the_description d)))
      then [''Description must be 300-600 characters (current: ''
              @ number_toString (length (the (the_description d))) @ '')''] else [])
   @ (if truthy_string (the_flag d) \<and> \<not> flag_pattern_test (the (the_flag d))
      then [''Flag must match format CTF{...}''] else [])
   @ (if truthy_array (the_hints d)
         \<and> (length (the (the_hints d)) < 3 \<or> 7 < length (the (the_hints d)))
      then [''Must have 3-7 hints (current: ''
              @ number_toString (length (the (the_hints d))) @ '')''] else [])
   @ (if truthy_array (the_solutions d) \<and> length (the (the_solutions d)) < 1
      then [''Must have at least 1 solution''] else [])
   @ (if truthy_array (the_objectives d) \<and> length (the (the_objectives d)) < 1
      then [''Must have at least 1 learning objective''] else [])"
  by (simp add: validateCTFScenarioData_def Let_def
      the_description_def the_flag_def the_hints_def the_solutions_def the_objectives_def)

lemma scenario_error_count:
  "length (filter (is_error_of DescriptionLength) (errors (validateCTFScenario s))) =
     (if length (description (game_content s)) < 300
         \<or> 600 < length (description (game_content s)) then 1 else 0)"
  "length (filter (is_error_of FlagPattern) (errors (validateCTFScenario s))) =
     (if \<not> flag_pattern_test (flag (game_content s)) then 1 else 0)"
  "length (filter (is_error_of HintsCardinality) (errors (validateCTFScenario s))) =
     (if length (hints (game_content s)) < 3 \<or> 7 < length (hints (game_content s))
      then 1 else 0)"
  by (simp_all add: errors_validateCTFScenario starts_with_def)

lemma data_error_count:
  "length (filter (is_error_of DescriptionLength) (errors (validateCTFScenarioData d))) =
     (if truthy_string (the_description d)
         \<and> (length (the (the_description d)) < 300 \<or> 600 < length (the (the_description d)))
      then 1 else 0)"
  "length (filter (is_error_of FlagPattern) (errors (validateCTFScenarioData d))) =
     (if truthy_string (the_flag d) \<and> \<not> flag_pattern_test (the (the_flag d)) then 1 else 0)"
  "length (filter (is_error_of HintsCardinality) (errors (validateCTFScenarioData d))) =
     (if truthy_array (the_hints d)
         \<and> (length (the (the_hints d)) < 3 \<or> 7 < length (the (the_hints d)))
      then 1 else 0)"
  "length (filter (is_error_of SolutionsCardinality) (errors (validateCTFScenarioData d))) =
     (if truthy_array (the_solutions d) \<and> length (the (the_solutions d)) < 1 then 1 else 0)"
  "length (filter (is_error_of ObjectivesCardinality) (errors (validateCTFScenarioData d))) =
     (if truthy_array (the_objectives d) \<and> length (the (the_objectives d)) < 1 then 1 else 0)"
  by (simp_all add: errors_validateCTFScenarioData starts_with_def)

text \<open>
  C3, at two inputs. A complete scenario whose list of learning objectives is empty,
  everything else being within bounds: \<^verbatim>\<open>validateCTFScenario\<close> has no check of the
  learning objectives and accepts it with no message, while \<^verbatim>\<open>validateCTFScenarioData\<close>
  reports the same failure. An input whose description and flag are present and empty:
  both are out of bounds, and \<^verbatim>\<open>validateCTFScenarioData\<close> skips both checks and
  reports nothing.
\<close>

theorem failing_checks_without_message:
  "learning_objectives (basic_info scenario_without_objectives) = []
   \<and> validateCTFScenario scenario_without_objectives = \<lparr> valid = True, errors = [] \<rparr>
   \<and> the_objectives (sample_data (replicate 300 (CHR ''a'')) ''CTF{flag_here}'' 3 1 0) = Some []
   \<and> validateCTFScenarioData (sample_data (replicate 300 (CHR ''a'')) ''CTF{flag_here}'' 3 1 0)
       = \<lparr> valid = False, errors = [''Must have at least 1 learning objective''] \<rparr>
   \<and> the_description (sample_data [] [] 3 1 1) = Some []
   \<and> the_flag (sample_data [] [] 3 1 1) = Some []
   \<and> \<not> flag_pattern_test []
   \<and> validateCTFScenarioData (sample_data [] [] 3 1 1) = \<lparr> valid = True, errors = [] \<rparr>"
proof -
  have f: "flag_pattern_test ''CTF{flag_here}''" "\<not> flag_pattern_test []"
    by (simp_all add: flag_pattern_test_def strip_literal_def)
  have 1: "validateCTFScenario scenario_without_objectives = \<lparr> valid = True, errors = [] \<rparr>"
    using f
    by (simp add: validateCTFScenario_def Let_def scenario_without_objectives_def
        sample_scenario_def description_min_length_def description_max_length_def
        hints_min_count_def hints_max_count_def solutions_min_count_def)
  have 2: "validateCTFScenarioData (sample_data (replicate 300 (CHR ''a'')) ''CTF{flag_here}'' 3 1 0)
       = \<lparr> valid = False, errors = [''Must have at least 1 learning objective''] \<rparr>"
    using f
    by (simp add: validateCTFScenarioData_def Let_def sample_data_def truthy_string_def
        truthy_array_def)
  have 3: "validateCTFScenarioData (sample_data [] [] 3 1 1) = \<lparr> valid = True, errors = [] \<rparr>"
    by (simp add: validateCTFScenarioData_def Let_def sample_data_def truthy_string_def
        truthy_array_def)
  show ?thesis
    using 1 2 3 f
    by (simp add: scenario_without_objectives_def sample_data_def the_objectives_def
        the_description_def the_flag_def)
qed

text \<open>
  C6. The bounds are inclusive at both ends, in both validators: a description of 300 to
  600 characters gives no description error, one of 299 or of 601 characters gives
  exactly one; 3 or 7 hints give no hints error, 2 or 8 hints give one.
\<close>

theorem boundary_checks_are_inclusive:
  "(300 \<le> length (description (game_content s)) \<and> length (description (game_content s)) \<le> 600
      \<longrightarrow> filter (is_error_of DescriptionLength) (errors (validateCTFScenario s)) = [])
   \<and> (length (description (game_content s)) = 299 \<or> length (description (game_content s)) = 601
      \<longrightarrow> length (filter (is_error_of DescriptionLength) (errors (validateCTFScenario s))) = 1)
   \<and> (length (hints (game_content s)) = 3 \<or> length (hints (game_content s)) = 7
      \<longrightarrow> filter (is_error_of HintsCardinality) (errors (validateCTFScenario s)) = [])
   \<and> (length (hints (game_content s)) = 2 \<or> length (hints (game_content s)) = 8
      \<longrightarrow> length (filter (is_error_of HintsCardinality) (errors (validateCTFScenario s))) = 1)
   \<and> (the_description d = Some desc \<and> 300 \<le> length desc \<and> length desc \<le> 600
      \<longrightarrow> filter (is_error_of DescriptionLength) (errors (validateCTFScenarioData d)) = [])
   \<and> (the_description d = Some desc \<and> (length desc = 299 \<or> length desc = 601)
      \<longrightarrow> length (filter (is_error_of DescriptionLength) (errors (validateCTFScenarioData d))) = 1)
   \<and> (the_hints d = Some hs \<and> (length hs = 3 \<or> length hs = 7)
      \<longrightarrow> filter (is_error_of HintsCardinality) (errors (validateCTFScenarioData d)) = [])
   \<and> (the_hints d = Some hs \<and> (length hs = 2 \<or> length hs = 8)
      \<longrightarrow> length (filter (is_error_of HintsCardinality) (errors (validateCTFScenarioData d))) = 1)"
proof -
  have e: "xs = [] \<longleftrightarrow> length xs = 0" for xs :: "string list" by simp
  have ne: "desc \<noteq> []" if "length desc = 299 \<or> length desc = 601 \<or> 300 \<le> length desc"
    using that by auto
  show ?thesis
    unfolding e scenario_error_count data_error_count
    using ne
    by (auto simp: truthy_string_def truthy_array_def)
qed

theorem boundary_checks_are_inclusive_witness:
  "filter (is_error_of DescriptionLength)
      (errors (validateCTFScenario (sample_scenario (replicate 300 (CHR ''a'')) ''CTF{x}'' 3 1))) = []
   \<and> filter (is_error_of HintsCardinality)
      (errors (validateCTFScenario (sample_scenario (replicate 300 (CHR ''a'')) ''CTF{x}'' 3 1))) = []
   \<and> length (filter (is_error_of DescriptionLength)
      (errors (validateCTFScenario (sample_scenario (replicate 601 (CHR ''a'')) ''CTF{x}'' 8 1)))) = 1
   \<and> length (filter (is_error_of HintsCardinality)
      (errors (validateCTFScenario (sample_scenario (replicate 601 (CHR ''a'')) ''CTF{x}'' 8 1)))) = 1
   \<and> filter (is_error_of DescriptionLength)
      (errors (validateCTFScenarioData (sample_data (replicate 600 (CHR ''a'')) ''CTF{x}'' 7 1 1))) = []
   \<and> filter (is_error_of HintsCardinality)
      (errors (validateCTFScenarioData (sample_data (replicate 600 (CHR ''a'')) ''CTF{x}'' 7 1 1))) = []
   \<and> length (filter (is_error_of DescriptionLength)
      (errors (validateCTFScenarioData (sample_data (replicate 299 (CHR ''a'')) ''CTF{x}'' 2 1 1)))) = 1
   \<and> length (filter (is_error_of HintsCardinality)
      (errors (validateCTFScenarioData (sample_data (replicate 299 (CHR ''a'')) ''CTF{x}'' 2 1 1)))) = 1"
  using
    boundary_checks_are_inclusive
      [of "sample_scenario (replicate 300 (CHR ''a'')) ''CTF{x}'' 3 1"
          "sample_data (replicate 600 (CHR ''a'')) ''CTF{x}'' 7 1 1"
          "replicate 600 (CHR ''a'')" "replicate 7 sample_hint"]
    boundary_checks_are_inclusive
      [of "sample_scenario (replicate 601 (CHR ''a'')) ''CTF{x}'' 8 1"
          "sample_data (replicate 299 (CHR ''a'')) ''CTF{x}'' 2 1 1"
          "replicate 299 (CHR ''a'')" "replicate 2 sample_hint"]
  by (simp add: sample_scenario_def sample_data_def the_description_def the_hints_def)

text \<open>
  C8. \<^verbatim>\<open>validateCTFScenarioData\<close> emits no error for a field that is absent: none for the
  description, the flag, the hints or the solutions when that path of \<^verbatim>\<open>game_content\<close> is
  missing, none for the learning objectives when that path of \<^verbatim>\<open>basic_info\<close> is missing.
  On the empty object the result is valid with no errors.
\<close>

theorem absent_fields_are_not_checked:
  "(the_description d = None
      \<longrightarrow> filter (is_error_of DescriptionLength) (errors (validateCTFScenarioData d)) = [])
   \<and> (the_flag d = None
      \<longrightarrow> filter (is_error_of FlagPattern) (errors (validateCTFScenarioData d)) = [])
   \<and> (the_hints d = None
      \<longrightarrow> filter (is_error_of HintsCardinality) (errors (validateCTFScenarioData d)) = [])
   \<and> (the_solutions d = None
      \<longrightarrow> filter (is_error_of SolutionsCardinality) (errors (validateCTFScenarioData d)) = [])
   \<and> (the_objectives d = None
      \<longrightarrow> filter (is_error_of ObjectivesCardinality) (errors (validateCTFScenarioData d)) = [])
   \<and> validateCTFScenarioData empty_data = \<lparr> valid = True, errors = [] \<rparr>"
proof -
  have e: "xs = [] \<longleftrightarrow> length xs = 0" for xs :: "string list" by simp
  have "validateCTFScenarioData empty_data = \<lparr> valid = True, errors = [] \<rparr>"
    by (simp add: validateCTFScenarioData_def empty_data_def truthy_string_def
        truthy_array_def)
  then show ?thesis
    unfolding e data_error_count
    by (simp add: truthy_string_def truthy_array_def)
qed

theorem absent_fields_are_not_checked_witness:
  "the_description empty_data = None \<and> the_flag empty_data = None
   \<and> the_hints empty_data = None \<and> the_solutions empty_data = None
   \<and> the_objectives empty_data = None
   \<and> filter (is_error_of DescriptionLength) (errors (validateCTFScenarioData empty_data)) = []
   \<and> filter (is_error_of FlagPattern) (errors (validateCTFScenarioData empty_data)) = []
   \<and> filter (is_error_of HintsCardinality) (errors (validateCTFScenarioData empty_data)) = []
   \<and> filter (is_error_of SolutionsCardinality) (errors (validateCTFScenarioData empty_data)) = []
   \<and> filter (is_error_of ObjectivesCardinality) (errors (validateCTFScenarioData empty_data)) = []
   \<and> valid (validateCTFScenarioData empty_data)"
proof -
  have h: "the_description empty_data = None" "the_flag empty_data = None"
    "the_hints empty_data = None" "the_solutions empty_data = None"
    "the_objectives empty_data = None"
    by (simp_all add: empty_data_def the_description_def the_flag_def the_hints_def
        the_solutions_def the_objectives_def)
  show ?thesis
    using h absent_fields_are_not_checked [of empty_data] by simp
qed

text \<open>
  C10. No validator reads the flag's length bounds: whenever the flag matches the
  pattern, \<^verbatim>\<open>validateCTFScenario\<close> emits no flag error, and neither does
  \<^verbatim>\<open>validateCTFScenarioData\<close>. \<^verbatim>\<open>CTF{x}\<close>, of 6 characters, is below the
  declared minimum of 10 and matches; a flag of 105 characters is above the declared
  maximum of 100 and matches too.
\<close>

theorem flag_length_bounds_not_enforced:
  "(flag_pattern_test (flag (game_content s))
      \<longrightarrow> filter (is_error_of FlagPattern) (errors (validateCTFScenario s)) = [])
   \<and> (the_flag d = Some f \<and> flag_pattern_test f
      \<longrightarrow> filter (is_error_of FlagPattern) (errors (validateCTFScenarioData d)) = [])
   \<and> flag_pattern_test ''CTF{x}'' \<and> length ''CTF{x}'' < flag_min_length
   \<and> flag_pattern_test (''CTF{'' @ replicate 100 (CHR ''x'') @ ''}'')
   \<and> flag_max_length < length (''CTF{'' @ replicate 100 (CHR ''x'') @ ''}'')"
proof -
  have e: "xs = [] \<longleftrightarrow> length xs = 0" for xs :: "string list" by simp
  have 1: "flag_pattern_test (flag (game_content s))
      \<longrightarrow> filter (is_error_of FlagPattern) (errors (validateCTFScenario s)) = []"
    unfolding e scenario_error_count by simp
  have 4: "the_flag d = Some f \<and> flag_pattern_test f
      \<longrightarrow> filter (is_error_of FlagPattern) (errors (validateCTFScenarioData d)) = []"
    unfolding e data_error_count by simp
  have 2: "flag_pattern_test ''CTF{x}''"
    by (simp add: flag_pattern_test_def strip_literal_def)
  have 3: "flag_pattern_test (''CTF{'' @ replicate 100 (CHR ''x'') @ ''}'')"
    unfolding flag_pattern_test_body
    by (rule exI [of _ "replicate 100 (CHR ''x'')"]) simp
  show ?thesis using 1 2 3 4 by (simp add: flag_min_length_def flag_max_length_def)
qed

theorem flag_length_bounds_not_enforced_witness:
  "flag_pattern_test (flag (game_content (sample_scenario (replicate 300 (CHR ''a'')) ''CTF{x}'' 3 1)))
   \<and> length (flag (game_content (sample_scenario (replicate 300 (CHR ''a'')) ''CTF{x}'' 3 1))) = 6
   \<and> flag_min_length = 10
   \<and> filter (is_error_of FlagPattern)
       (errors (validateCTFScenario (sample_scenario (replicate 300 (CHR ''a'')) ''CTF{x}'' 3 1))) = []
   \<and> filter (is_error_of FlagPattern)
       (errors (validateCTFScenarioData (sample_data (replicate 300 (CHR ''a'')) ''CTF{x}'' 3 1 1))) = []"
  using flag_length_bounds_not_enforced
    [of "sample_scenario (replicate 300 (CHR ''a'')) ''CTF{x}'' 3 1"
        "sample_data (replicate 300 (CHR ''a'')) ''CTF{x}'' 3 1 1" "''CTF{x}''"]
  by (simp add: sample_scenario_def sample_data_def the_flag_def flag_min_length_def)

text \<open>
  C7, at a scenario whose validation mode is \<^verbatim>\<open>regex\<close> and which has no \<^verbatim>\<open>flag_regex\<close>,
  everything else being within bounds: \<^verbatim>\<open>validateCTFScenario\<close> accepts it. The function
  reads neither field, so its result is the same whatever the two hold.
\<close>

theorem regex_mode_without_flag_regex_is_valid:
  "flag_validation (game_content regex_mode_scenario) = Regex
   \<and> flag_regex (game_content regex_mode_scenario) = None
   \<and> validateCTFScenario regex_mode_scenario = \<lparr> valid = True, errors = [] \<rparr>
   \<and> validateCTFScenario
       (s\<lparr>game_content := (game_content s)\<lparr>flag_validation := v, flag_regex := r\<rparr>\<rparr>)
     = validateCTFScenario s"
proof -
  have 1: "flag_pattern_test ''CTF{flag_here}''"
    by (simp add: flag_pattern_test_def strip_literal_def)
  have 2: "validateCTFScenario regex_mode_scenario = \<lparr> valid = True, errors = [] \<rparr>"
    using 1
    by (simp add: validateCTFScenario_def Let_def regex_mode_scenario_def sample_scenario_def
        description_min_length_def description_max_length_def hints_min_count_def
        hints_max_count_def solutions_min_count_def)
  have 3: "validateCTFScenario
       (s\<lparr>game_content := (game_content s)\<lparr>flag_validation := v, flag_regex := r\<rparr>\<rparr>)
     = validateCTFScenario s"
    by (simp add: validateCTFScenario_def)
  show ?thesis using 2 3 by (simp add: regex_mode_scenario_def sample_scenario_def)
qed

end
